theory Spec2Isabelle
  imports Complex_Main "HOL-Library.Log_Nat"
begin

section \<open>JavaScript values used by the front end\<close>

text \<open>
  A JavaScript \<open>number\<close> is a finite value, one of the two infinities, or NaN. A
  finite value is the real number it stands for, and the two zeros are identified (a zero
  divisor counts as \<open>+0\<close>; the zero divisors of the code modelled here are \<open>1 - 1\<close> and
  the length of an empty array, both \<open>+0\<close>). The operations \<open>js_sub\<close>, \<open>js_mul\<close> and
  \<open>js_div\<close> give the exact result; \<open>double_div\<close> and \<open>double_mul\<close> below round
  it to the nearest double, as IEEE 754 arithmetic does.
\<close>

datatype number = Fin real | PosInf | NegInf | NaN

fun js_lt :: "number \<Rightarrow> number \<Rightarrow> bool" where
  "js_lt NaN b = False"
| "js_lt a NaN = False"
| "js_lt (Fin a) (Fin b) = (a < b)"
| "js_lt (Fin a) PosInf = True"
| "js_lt (Fin a) NegInf = False"
| "js_lt PosInf b = False"
| "js_lt NegInf NegInf = False"
| "js_lt NegInf b = True"

definition js_gt :: "number \<Rightarrow> number \<Rightarrow> bool" where
  "js_gt a b = js_lt b a"

fun isNaN :: "number \<Rightarrow> bool" where
  "isNaN NaN = True"
| "isNaN a = False"

fun truthy :: "number \<Rightarrow> bool" where
  "truthy (Fin a) = (a \<noteq> 0)"
| "truthy NaN = False"
| "truthy a = True"

fun js_sub :: "number \<Rightarrow> number \<Rightarrow> number" where
  "js_sub NaN b = NaN"
| "js_sub a NaN = NaN"
| "js_sub (Fin a) (Fin b) = Fin (a - b)"
| "js_sub (Fin a) PosInf = NegInf"
| "js_sub (Fin a) NegInf = PosInf"
| "js_sub PosInf PosInf = NaN"
| "js_sub PosInf b = PosInf"
| "js_sub NegInf NegInf = NaN"
| "js_sub NegInf b = NegInf"

fun js_mul :: "number \<Rightarrow> number \<Rightarrow> number" where
  "js_mul NaN b = NaN"
| "js_mul a NaN = NaN"
| "js_mul (Fin a) (Fin b) = Fin (a * b)"
| "js_mul (Fin a) PosInf = (if a = 0 then NaN else if 0 < a then PosInf else NegInf)"
| "js_mul (Fin a) NegInf = (if a = 0 then NaN else if 0 < a then NegInf else PosInf)"
| "js_mul PosInf (Fin b) = (if b = 0 then NaN else if 0 < b then PosInf else NegInf)"
| "js_mul NegInf (Fin b) = (if b = 0 then NaN else if 0 < b then NegInf else PosInf)"
| "js_mul PosInf PosInf = PosInf"
| "js_mul PosInf NegInf = NegInf"
| "js_mul NegInf PosInf = NegInf"
| "js_mul NegInf NegInf = PosInf"

fun js_div :: "number \<Rightarrow> number \<Rightarrow> number" where
  "js_div NaN b = NaN"
| "js_div a NaN = NaN"
| "js_div (Fin a) (Fin b) =
     (if b = 0 then (if a = 0 then NaN else if 0 < a then PosInf else NegInf)
      else Fin (a / b))"
| "js_div (Fin a) b = Fin 0"
| "js_div PosInf (Fin b) = (if b < 0 then NegInf else PosInf)"
| "js_div NegInf (Fin b) = (if b < 0 then PosInf else NegInf)"
| "js_div a b = NaN"

text \<open>
  Rounding to the nearest IEEE 754 double, ties to the even significand. For a positive
  real \<open>a\<close>, \<open>exponent a\<close> is the integer \<open>e\<close> with \<open>2^e \<le> a < 2^(e+1)\<close>; the doubles
  near \<open>a\<close> are the multiples of \<open>2^(e-52)\<close>, with \<open>e\<close> no less than -1022 (below, the
  doubles are subnormal and equally spaced); a rounded magnitude of \<open>2^1024\<close> or more
  overflows to an infinity.
\<close>

definition exponent :: "real \<Rightarrow> int" where
  "exponent a =
     (if 1 \<le> a then bitlen \<lfloor>a\<rfloor> - 1
      else let k = bitlen \<lfloor>1 / a\<rfloor>
           in if a * 2 powi (k - 1) = 1 then 1 - k else - k)"

definition round_half_even :: "real \<Rightarrow> int" where
  "round_half_even q =
     (let f = \<lfloor>q\<rfloor>; r = q - of_int f
      in if r < 1/2 then f else if 1/2 < r then f + 1 else if even f then f else f + 1)"

definition binary64 :: "real \<Rightarrow> number" where
  "binary64 x =
     (if x = 0 then Fin 0
      else let a = \<bar>x\<bar>;
               e = max (exponent a) (- 1022);
               u = 2 powi (e - 52);
               y = of_int (round_half_even (a / u)) * u
           in if 2 powi 1024 \<le> y then (if 0 < x then PosInf else NegInf)
              else Fin (if 0 < x then y else - y))"

definition fl :: "number \<Rightarrow> number" where
  "fl v = (case v of Fin x \<Rightarrow> binary64 x | PosInf \<Rightarrow> PosInf | NegInf \<Rightarrow> NegInf | NaN \<Rightarrow> NaN)"

definition double_div :: "number \<Rightarrow> number \<Rightarrow> number" where
  "double_div a b = fl (js_div a b)"

definition double_mul :: "number \<Rightarrow> number \<Rightarrow> number" where
  "double_mul a b = fl (js_mul a b)"

text \<open>
  \<open>Number.prototype.toFixed(d)\<close> gives the text of a number. A finite value is printed
  in decimal with \<open>d\<close> digits after the point: \<open>Fixed d x\<close> stands for that text of
  \<open>x\<close>. A value that is not finite is printed by name.
\<close>

datatype rendered = Fixed nat real | Text string

fun toFixed :: "nat \<Rightarrow> number \<Rightarrow> rendered" where
  "toFixed d (Fin x) = Fixed d x"
| "toFixed d PosInf = Text ''Infinity''"
| "toFixed d NegInf = Text ''-Infinity''"
| "toFixed d NaN = Text ''NaN''"

text \<open>
  The digits that \<open>Fixed d x\<close> shows for \<open>0 \<le> x < 10^21\<close>: the integer \<open>n\<close> for which
  \<open>n / 10^d\<close> is nearest to \<open>x\<close>, the larger one of two; the text is \<open>n\<close> with the
  point before its last \<open>d\<close> digits.
\<close>

definition fixed_digits :: "nat \<Rightarrow> real \<Rightarrow> int" where
  "fixed_digits d x = \<lfloor>x * 10 ^ d + 1 / 2\<rfloor>"

text \<open>
  An object of type \<open>Record<string, number>\<close> is the list of its own properties in the
  order in which \<open>Object.entries\<close> and \<open>Object.keys\<close> enumerate them (the order of
  insertion, for names that are no array indices); reading a
  property that is absent gives \<open>undefined\<close> (\<open>None\<close>). Inherited properties, such
  as \<open>toString\<close>, are left out. TypeScript types are erased at run time, so a statistics
  object is a list of named properties, each holding one such record.
\<close>

type_synonym js_record = "(string \<times> number) list"
type_synonym js_object = "(string \<times> js_record) list"

definition field :: "js_object \<Rightarrow> string \<Rightarrow> js_record option" where
  "field obj name = map_of obj name"

definition lookup :: "js_record \<Rightarrow> string \<Rightarrow> number option" where
  "lookup r key = map_of r key"

datatype render_error = TypeError

text \<open>\<open>Object.entries\<close> and \<open>Object.keys\<close> throw a TypeError on \<open>undefined\<close>.\<close>

definition Object_entries :: "js_record option \<Rightarrow> render_error + (string \<times> number) list" where
  "Object_entries v = (case v of None \<Rightarrow> Inl TypeError | Some r \<Rightarrow> Inr r)"

definition Object_keys :: "js_record option \<Rightarrow> render_error + string list" where
  "Object_keys v = (case v of None \<Rightarrow> Inl TypeError | Some r \<Rightarrow> Inr (map fst r))"

fun collect :: "('e + 'a) list \<Rightarrow> 'e + 'a list" where
  "collect [] = Inr []"
| "collect (Inl e # rs) = Inl e"
| "collect (Inr a # rs) = (case collect rs of Inl e \<Rightarrow> Inl e | Inr as \<Rightarrow> Inr (a # as))"

text \<open>\<open>Array.prototype.reduce\<close> without an initial value throws on an empty array.\<close>

fun reduce :: "('a \<Rightarrow> 'a \<Rightarrow> 'a) \<Rightarrow> 'a list \<Rightarrow> render_error + 'a" where
  "reduce f [] = Inl TypeError"
| "reduce f (x # xs) = Inr (foldl f x xs)"


section \<open>The statistics panel\<close>

text \<open>
  \<open>calculateAverageStreak\<close>: a truthy value of \<open>statistics.averageStreaks[state]\<close> is
  returned as it is; otherwise the estimate is computed from
  \<open>statistics.steadyState[state] || 0\<close>. The estimate is modelled with the exact
  subtraction and division.
\<close>

definition calculateAverageStreak :: "js_object \<Rightarrow> string \<Rightarrow> render_error + number" where
  "calculateAverageStreak statistics state =
     (let estimate =
            (case field statistics ''steadyState'' of
               None \<Rightarrow> Inl TypeError
             | Some steadyState \<Rightarrow>
                 let selfProb = (case lookup steadyState state of
                                   None \<Rightarrow> Fin 0
                                 | Some p \<Rightarrow> if truthy p then p else Fin 0)
                 in Inr (if js_gt selfProb (Fin 0)
                         then js_div (Fin 1) (js_sub (Fin 1) selfProb)
                         else Fin 1))
      in case field statistics ''averageStreaks'' of
           None \<Rightarrow> estimate
         | Some averageStreaks \<Rightarrow>
             (case lookup averageStreaks state of
                None \<Rightarrow> estimate
              | Some v \<Rightarrow> if truthy v then Inr v else estimate))"

text \<open>
  The value that \<open>averageStreaks\<close> supplies for a state: the truthy value of
  \<open>statistics.averageStreaks[state]\<close>, if there is one.
\<close>

definition supplied_streak :: "js_object \<Rightarrow> string \<Rightarrow> number option" where
  "supplied_streak statistics s =
     (case field statistics ''averageStreaks'' of
        None \<Rightarrow> None
      | Some averageStreaks \<Rightarrow>
          (case lookup averageStreaks s of
             None \<Rightarrow> None
           | Some v \<Rightarrow> if truthy v then Some v else None))"

text \<open>
  What the panel shows: the two pie-chart data sets (name, value, percentage text), the
  steady-state cards, the cards of expected consecutive days, and the most common state.
\<close>

record panel_view =
  distributionData :: "(string \<times> number \<times> rendered) list"
  steadyStateData :: "(string \<times> number \<times> rendered) list"
  steadyStateCards :: "(string \<times> rendered) list"
  streakCards :: "(string \<times> rendered) list"
  mostCommon :: string

definition chart_data :: "(string \<times> number) list \<Rightarrow> (string \<times> number \<times> rendered) list" where
  "chart_data entries =
     map (\<lambda>(state, v). (state, v, toFixed 1 (double_mul v (Fin 100)))) entries"

definition StatisticsPanel :: "js_object \<Rightarrow> render_error + panel_view" where
  "StatisticsPanel statistics =
     (case Object_entries (field statistics ''distribution'') of
        Inl e \<Rightarrow> Inl e
      | Inr distribution \<Rightarrow>
     (case Object_entries (field statistics ''steadyState'') of
        Inl e \<Rightarrow> Inl e
      | Inr steadyState \<Rightarrow>
     (case Object_keys (field statistics ''steadyState'') of
        Inl e \<Rightarrow> Inl e
      | Inr states \<Rightarrow>
     (case collect (map (\<lambda>state. case calculateAverageStreak statistics state of
                                    Inl e \<Rightarrow> Inl e
                                  | Inr avgStreak \<Rightarrow> Inr (state, toFixed 2 avgStreak)) states) of
        Inl e \<Rightarrow> Inl e
      | Inr streaks \<Rightarrow>
     (case reduce (\<lambda>a b. if js_gt (snd a) (snd b) then a else b) steadyState of
        Inl e \<Rightarrow> Inl e
      | Inr best \<Rightarrow>
          Inr \<lparr> distributionData = chart_data distribution,
                steadyStateData = chart_data steadyState,
                steadyStateCards =
                  map (\<lambda>(state, probability). (state, toFixed 1 (double_mul probability (Fin 100))))
                    steadyState,
                streakCards = streaks,
                mostCommon = fst best \<rparr>)))))"

text \<open>
  The transition matrix as the engine hands it over: the probability grid flattened row
  by row, with the ordered state names.
\<close>

record MatrixData =
  matrix :: "number list"
  states :: "string list"
  rows :: nat
  cols :: nat

text \<open>The self-transition probability of a state: the diagonal entry of its row.\<close>

definition self_transition :: "MatrixData \<Rightarrow> string \<Rightarrow> number option" where
  "self_transition m s =
     (case List.find (\<lambda>i. states m ! i = s) [0 ..< length (states m)] of
        None \<Rightarrow> None
      | Some i \<Rightarrow> if i * cols m + i < length (matrix m)
                  then Some (matrix m ! (i * cols m + i)) else None)"

text \<open>
  The expected run length as the specification words it: \<open>1 / (1 - p_self)\<close>, with
  \<open>p_self\<close> the diagonal entry of the matrix.
\<close>

definition spec_expected_run_length :: "MatrixData \<Rightarrow> string \<Rightarrow> number option" where
  "spec_expected_run_length m s =
     (case self_transition m s of
        None \<Rightarrow> None
      | Some p_self \<Rightarrow> Some (js_div (Fin 1) (js_sub (Fin 1) p_self)))"

text \<open>
  The matrix of the observation sequence Sunny, Sunny, Rainy, Rainy, Rainy, Sunny, and
  the statistics of that chain: its stationary distribution is (2/5, 3/5).
\<close>

definition fixture_matrix :: MatrixData where
  "fixture_matrix =
     \<lparr> matrix = [Fin (1/2), Fin (1/2), Fin (1/3), Fin (2/3)],
       states = [''Sunny'', ''Rainy''], rows = 2, cols = 2 \<rparr>"

definition fixture_statistics :: js_object where
  "fixture_statistics =
     [(''distribution'', [(''Sunny'', Fin (1/2)), (''Rainy'', Fin (1/2))]),
      (''steadyState'', [(''Sunny'', Fin (2/5)), (''Rainy'', Fin (3/5))])]"

text \<open>A chain with a single, absorbing state.\<close>

definition absorbing_matrix :: MatrixData where
  "absorbing_matrix = \<lparr> matrix = [Fin 1], states = [''Sunny''], rows = 1, cols = 1 \<rparr>"

definition absorbing_statistics :: js_object where
  "absorbing_statistics =
     [(''distribution'', [(''Sunny'', Fin 1)]),
      (''steadyState'', [(''Sunny'', Fin 1)])]"




section \<open>The weather timeline\<close>

record SimulationDay =
  day :: number
  state :: string
  timestamp :: number

definition stateColors :: "(string \<times> string) list" where
  "stateColors =
     [(''Sunny'', ''#FCD34D''), (''Rainy'', ''#3B82F6''), (''Cloudy'', ''#9CA3AF'')]"

text \<open>
  The summary cards under the chart: for each key of \<open>stateColors\<close>, the number of days
  with that state and \<open>((count / simulationData.length) * 100).toFixed(1)\<close>.
\<close>

definition summary_statistics :: "SimulationDay list \<Rightarrow> (string \<times> nat \<times> rendered) list" where
  "summary_statistics simulationData =
     map (\<lambda>s. let count = length (filter (\<lambda>d. state d = s) simulationData);
                  percentage =
                    toFixed 1 (double_mul (double_div (Fin (real count))
                                                      (Fin (real (length simulationData))))
                                          (Fin 100))
              in (s, count, percentage))
         (map fst stateColors)"

text \<open>
  Trajectories: a day with a state and an index; three days of which two are Snowy;
  eighty days of which the first 23 are Sunny.
\<close>

definition day_with :: "string \<Rightarrow> nat \<Rightarrow> SimulationDay" where
  "day_with s k = \<lparr> day = Fin (real k), state = s, timestamp = Fin (real k * 86400) \<rparr>"

definition snowy_days :: "SimulationDay list" where
  "snowy_days = [day_with ''Sunny'' 0, day_with ''Snowy'' 1, day_with ''Snowy'' 2]"

definition eighty_days :: "SimulationDay list" where
  "eighty_days = map (day_with ''Sunny'') [0 ..< 23] @ map (day_with ''Rainy'') [23 ..< 80]"

text \<open>Three simulated days: Sunny, Rainy, Sunny.\<close>

definition sample_days :: "SimulationDay list" where
  "sample_days =
     [\<lparr> day = Fin 0, state = ''Sunny'', timestamp = Fin 0 \<rparr>,
      \<lparr> day = Fin 1, state = ''Rainy'', timestamp = Fin 86400 \<rparr>,
      \<lparr> day = Fin 2, state = ''Sunny'', timestamp = Fin 172800 \<rparr>]"


section \<open>The simulation control\<close>

text \<open>
  \<open>parseInt(text, 10)\<close>: leading white space is skipped, one sign is read, then the
  longest run of decimal digits; no digit gives NaN, and the integer read is rounded to
  the nearest double. (Only the ASCII white space characters are listed; a number input
  delivers no white space.)
\<close>

definition is_space :: "char \<Rightarrow> bool" where
  "is_space c = (c \<in> set [CHR '' '', CHR 0x09, CHR 0x0A, CHR 0x0B, CHR 0x0C, CHR 0x0D])"

definition is_digit :: "char \<Rightarrow> bool" where
  "is_digit c = (c \<in> set ''0123456789'')"

definition digit_value :: "char \<Rightarrow> nat" where
  "digit_value c = of_char c - 48"

definition parseInt10 :: "string \<Rightarrow> number" where
  "parseInt10 text =
     (let S = dropWhile is_space text;
          negative = (case S of [] \<Rightarrow> False | c # cs \<Rightarrow> c = CHR ''-'');
          S' = (case S of [] \<Rightarrow> S
                | c # cs \<Rightarrow> if c = CHR ''+'' \<or> c = CHR ''-'' then cs else S);
          Z = takeWhile is_digit S'
      in if Z = [] then NaN
         else let mathInt = foldl (\<lambda>n c. 10 * n + digit_value c) 0 Z
              in binary64 (if negative then - real mathInt else real mathInt))"

record control_state =
  days :: number
  initialState :: string
  validationError :: "string option"

text \<open>
  The properties the control receives besides the callback \<open>onSimulate\<close>; the calls of
  the callback are what a handler returns next to the new state.
\<close>

record control_props =
  isSimulating :: bool
  disabled :: bool

definition control_initial :: control_state where
  "control_initial = \<lparr> days = Fin 30, initialState = ''Sunny'', validationError = None \<rparr>"

definition weatherStates :: "string list" where
  "weatherStates = [''Sunny'', ''Rainy'', ''Cloudy'']"

definition handleDaysChange :: "string \<Rightarrow> control_state \<Rightarrow> control_state" where
  "handleDaysChange text c =
     (let v = parseInt10 text
      in c\<lparr> days := v,
            validationError :=
              (if isNaN v then Some ''Please enter a valid number''
               else if js_lt v (Fin 1) then Some ''Days must be at least 1''
               else if js_gt v (Fin 365) then Some ''Days cannot exceed 365''
               else None) \<rparr>)"

definition handleInitialStateChange :: "string \<Rightarrow> control_state \<Rightarrow> control_state" where
  "handleInitialStateChange v c = c\<lparr> initialState := v \<rparr>"

definition handleRunSimulation :: "control_state \<Rightarrow> control_state \<times> (number \<times> string) list" where
  "handleRunSimulation c =
     (if js_lt (days c) (Fin 1) \<or> js_gt (days c) (Fin 365)
      then (c\<lparr> validationError := Some ''Days must be between 1 and 365'' \<rparr>, [])
      else (c\<lparr> validationError := None \<rparr>, [(days c, initialState c)]))"

definition isDisabled :: "control_props \<Rightarrow> control_state \<Rightarrow> bool" where
  "isDisabled props c = (disabled props \<or> isSimulating props \<or> validationError c \<noteq> None)"

text \<open>The values of the options that the select element of the initial state offers.\<close>

definition initial_state_options :: "string list" where
  "initial_state_options = map (\<lambda>s. s) weatherStates"

text \<open>
  What a user can do with the rendered control: type into the days input, choose the
  option at a position of the select element, click the run button. The input and the
  select are disabled while a simulation runs, the button while \<open>isDisabled\<close> holds.
\<close>

datatype control_event = TypeDays string | ChooseOption nat | ClickRun

definition control_step ::
  "control_props \<Rightarrow> control_event \<Rightarrow> control_state \<Rightarrow> control_state \<times> (number \<times> string) list" where
  "control_step props ev c =
     (case ev of
        TypeDays text \<Rightarrow> (if isSimulating props then c else handleDaysChange text c, [])
      | ChooseOption i \<Rightarrow>
          (if isSimulating props \<or> length initial_state_options \<le> i then c
           else handleInitialStateChange (initial_state_options ! i) c, [])
      | ClickRun \<Rightarrow> (if isDisabled props c then (c, []) else handleRunSimulation c))"

fun control_run ::
  "(control_props \<times> control_event) list \<Rightarrow> control_state \<Rightarrow> control_state \<times> (number \<times> string) list" where
  "control_run [] c = (c, [])"
| "control_run ((props, ev) # evs) c =
     (let (c', calls) = control_step props ev c;
          (c'', calls') = control_run evs c'
      in (c'', calls @ calls'))"


text \<open>
  A number of days within the bound, and the invariant of the control: whenever no
  validation error is shown, the days entered are within the bound.
\<close>

definition days_in_range :: "number \<Rightarrow> bool" where
  "days_in_range d =
     (case d of
        Fin x \<Rightarrow> 1 \<le> x \<and> x \<le> 365
      | PosInf \<Rightarrow> False
      | NegInf \<Rightarrow> False
      | NaN \<Rightarrow> False)"

definition days_checked :: "control_state \<Rightarrow> bool" where
  "days_checked c = (validationError c \<noteq> None \<or> days_in_range (days c))"

text \<open>A state of the control with 400 days entered.\<close>

definition out_of_range_control :: control_state where
  "out_of_range_control =
     \<lparr> days = Fin 400, initialState = ''Rainy'', validationError = None \<rparr>"


section \<open>The hook around the engine\<close>

text \<open>
  What a JavaScript \<open>catch\<close> can receive: a string, an \<open>Error\<close> object with its
  message, or any other value.
\<close>

datatype thrown = ThrownString string | ThrownError string | ThrownOther

text \<open>
  The exported functions of the engine, as the interface \<open>WASMModule\<close> declares them. A
  field holds what the function does when it is called: it returns or it throws. The
  results, declared \<open>any\<close>, are cast without a check.
\<close>

record WASMModule =
  init_markov_engine :: "thrown option"
  process_weather_data :: "string \<Rightarrow> thrown + MatrixData"
  run_simulation :: "number \<Rightarrow> string \<Rightarrow> thrown + SimulationDay list"
  get_statistics :: "thrown + js_object"

datatype engine_call =
    Call_init_markov_engine
  | Call_process_weather_data string
  | Call_run_simulation number string
  | Call_get_statistics

record hook_state =
  wasmModule :: "WASMModule option"
  isReady :: bool
  hook_error :: "thrown option"

definition hook_initial :: hook_state where
  "hook_initial = \<lparr> wasmModule = None, isReady = False, hook_error = None \<rparr>"

text \<open>
  \<open>loadWASM\<close>, given the outcome of importing and instantiating the module and whether
  the component is still mounted. Handlers of the hook return the new state with the
  engine functions they called.
\<close>

definition loadWASM ::
  "thrown + WASMModule \<Rightarrow> bool \<Rightarrow> hook_state \<Rightarrow> hook_state \<times> engine_call list" where
  "loadWASM loaded mounted h =
     (let failed = (\<lambda>err. if mounted
                           then h\<lparr> hook_error :=
                                     Some (case err of
                                             ThrownError m \<Rightarrow> ThrownError m
                                           | ThrownString s \<Rightarrow> ThrownError ''Failed to load WASM module''
                                           | ThrownOther \<Rightarrow> ThrownError ''Failed to load WASM module''),
                                   isReady := False \<rparr>
                           else h)
      in case loaded of
           Inl err \<Rightarrow> (failed err, [])
         | Inr wasm \<Rightarrow>
             (case init_markov_engine wasm of
                Some err \<Rightarrow> (failed err, [Call_init_markov_engine])
              | None \<Rightarrow>
                  (if mounted
                   then h\<lparr> wasmModule := Some wasm, isReady := True, hook_error := None \<rparr>
                   else h,
                   [Call_init_markov_engine])))"

definition error_message :: "thrown \<Rightarrow> string \<Rightarrow> string" where
  "error_message err fallback =
     (case err of ThrownString s \<Rightarrow> s | ThrownError m \<Rightarrow> m | ThrownOther \<Rightarrow> fallback)"

definition not_ready :: thrown where
  "not_ready = ThrownError ''WASM module not ready''"

text \<open>
  The three wrappers. Each returns how its promise settles (\<open>Inl\<close>: rejected with the
  value thrown) and the engine functions it called.
\<close>

definition processData :: "hook_state \<Rightarrow> string \<Rightarrow> (thrown + MatrixData) \<times> engine_call list" where
  "processData h jsonData =
     (case wasmModule h of
        None \<Rightarrow> (Inl not_ready, [])
      | Some m \<Rightarrow>
          if \<not> isReady h then (Inl not_ready, [])
          else (case process_weather_data m jsonData of
                  Inr result \<Rightarrow> (Inr result, [Call_process_weather_data jsonData])
                | Inl err \<Rightarrow>
                    (Inl (ThrownError (error_message err ''Failed to process weather data'')),
                     [Call_process_weather_data jsonData])))"

definition runSimulation ::
  "hook_state \<Rightarrow> number \<Rightarrow> string \<Rightarrow> (thrown + SimulationDay list) \<times> engine_call list" where
  "runSimulation h n s =
     (case wasmModule h of
        None \<Rightarrow> (Inl not_ready, [])
      | Some m \<Rightarrow>
          if \<not> isReady h then (Inl not_ready, [])
          else (case run_simulation m n s of
                  Inr result \<Rightarrow> (Inr result, [Call_run_simulation n s])
                | Inl err \<Rightarrow>
                    (Inl (ThrownError (error_message err ''Failed to run simulation'')),
                     [Call_run_simulation n s])))"

definition getStatistics :: "hook_state \<Rightarrow> (thrown + js_object) \<times> engine_call list" where
  "getStatistics h =
     (case wasmModule h of
        None \<Rightarrow> (Inl not_ready, [])
      | Some m \<Rightarrow>
          if \<not> isReady h then (Inl not_ready, [])
          else (case get_statistics m of
                  Inr result \<Rightarrow> (Inr result, [Call_get_statistics])
                | Inl err \<Rightarrow>
                    (Inl (ThrownError (error_message err ''Failed to get statistics'')),
                     [Call_get_statistics])))"

text \<open>
  The wrappers as the components receive them: functions from the arguments to how
  the promise settles.
\<close>

definition hook_processData :: "hook_state \<Rightarrow> string \<Rightarrow> thrown + MatrixData" where
  "hook_processData h = (\<lambda>jsonData. fst (processData h jsonData))"

definition hook_runSimulation ::
  "hook_state \<Rightarrow> number \<Rightarrow> string \<Rightarrow> thrown + SimulationDay list" where
  "hook_runSimulation h = (\<lambda>n s. fst (runSimulation h n s))"

text \<open>The state of the hook after a sequence of runs of the loader.\<close>

fun hook_after :: "((thrown + WASMModule) \<times> bool) list \<Rightarrow> hook_state \<Rightarrow> hook_state" where
  "hook_after [] h = h"
| "hook_after ((loaded, mounted) # loads) h =
     hook_after loads (fst (loadWASM loaded mounted h))"

text \<open>
  The report type the hook declares for \<open>getStatistics\<close>: three fields, each a
  \<open>StateProbabilities\<close> with the fixed keys \<open>sunny\<close>, \<open>rainy\<close>, \<open>cloudy\<close>; and the
  run-time object that a value of that type is.
\<close>

record StateProbabilities =
  sunny :: number
  rainy :: number
  cloudy :: number

record Statistics =
  steady_state :: StateProbabilities
  distribution :: StateProbabilities
  average_streaks :: StateProbabilities






section \<open>The application shell\<close>

record SimulationResults =
  predictions :: "SimulationDay list"
  parameters :: "number \<times> string \<times> string"

record 'a app_state =
  selectedCity :: string
  historicalData :: "'a option"
  transitionMatrix :: "MatrixData option"
  simulationResults :: "SimulationResults option"
  isLoading :: bool
  error :: "string option"

definition handleCityChange :: "string \<Rightarrow> 'a app_state \<Rightarrow> 'a app_state" where
  "handleCityChange c a =
     a\<lparr> selectedCity := c, historicalData := None, transitionMatrix := None,
        simulationResults := None, error := None \<rparr>"

definition handleDataFetched :: "MatrixData \<Rightarrow> 'a app_state \<Rightarrow> 'a app_state" where
  "handleDataFetched m a = a\<lparr> transitionMatrix := Some m, error := None \<rparr>"

text \<open>
  \<open>handleSimulation\<close>, given how the promise of \<open>runSimulation\<close> settles for its
  arguments. The parameters stored are (days, initialState, city).
\<close>

definition handleSimulation ::
  "(number \<Rightarrow> string \<Rightarrow> thrown + SimulationDay list) \<Rightarrow> number \<Rightarrow> string \<Rightarrow>
   'a app_state \<Rightarrow> 'a app_state" where
  "handleSimulation run n s a =
     (case transitionMatrix a of
        None \<Rightarrow> a\<lparr> error := Some ''Please fetch weather data first'' \<rparr>
      | Some m \<Rightarrow>
          (let a1 = a\<lparr> isLoading := True, error := None \<rparr>;
               a2 = (case run n s of
                       Inr p \<Rightarrow>
                         a1\<lparr> simulationResults :=
                               Some \<lparr> predictions = p, parameters = (n, s, selectedCity a) \<rparr> \<rparr>
                     | Inl err \<Rightarrow>
                         a1\<lparr> error :=
                               Some (case err of
                                       ThrownError msg \<Rightarrow> msg
                                     | ThrownString t \<Rightarrow> ''Failed to run simulation''
                                     | ThrownOther \<Rightarrow> ''Failed to run simulation'') \<rparr>)
           in a2\<lparr> isLoading := False \<rparr>))"

text \<open>The properties that the shell passes to the simulation control.\<close>

definition control_props_of :: "'a app_state \<Rightarrow> control_props" where
  "control_props_of a = \<lparr> isSimulating = isLoading a, disabled = (transitionMatrix a = None) \<rparr>"


text \<open>
  Two states of the shell: one holds the matrix of the fixture and the result of an
  earlier simulation while a request is under way; the other holds a matrix whose states
  are Sunny and Snowy.
\<close>

definition fixture_app :: "unit app_state" where
  "fixture_app =
     \<lparr> selectedCity = ''Mumbai'', historicalData = Some (),
       transitionMatrix = Some fixture_matrix,
       simulationResults =
         Some \<lparr> predictions = sample_days, parameters = (Fin 3, ''Sunny'', ''Mumbai'') \<rparr>,
       isLoading = True, error = Some ''Failed to run simulation'' \<rparr>"

definition snowy_matrix :: MatrixData where
  "snowy_matrix =
     \<lparr> matrix = [Fin (1/2), Fin (1/2), Fin 1, Fin 0],
       states = [''Sunny'', ''Snowy''], rows = 2, cols = 2 \<rparr>"

definition snowy_app :: "unit app_state" where
  "snowy_app =
     \<lparr> selectedCity = ''Mumbai'', historicalData = None,
       transitionMatrix = Some snowy_matrix, simulationResults = None,
       isLoading = False, error = None \<rparr>"


section \<open>The data fetcher\<close>

record fetcher_state =
  isProcessing :: bool
  processingError :: "string option"

text \<open>
  \<open>handleProcessData\<close>, given \<open>JSON.stringify\<close>, how the promise of \<open>processData\<close>
  settles for a JSON text, and the data fetched so far (\<open>None\<close>: undefined). It returns
  the new state and the matrices passed to \<open>onDataFetched\<close>.
\<close>

definition handleProcessData ::
  "('d \<Rightarrow> string) \<Rightarrow> (string \<Rightarrow> thrown + MatrixData) \<Rightarrow> 'd option \<Rightarrow>
   fetcher_state \<Rightarrow> fetcher_state \<times> MatrixData list" where
  "handleProcessData stringify process fetched f =
     (case fetched of
        None \<Rightarrow> (f, [])
      | Some d \<Rightarrow>
          (let f1 = f\<lparr> isProcessing := True, processingError := None \<rparr>;
               jsonData = stringify d
           in case process jsonData of
                Inr m \<Rightarrow> (f1\<lparr> isProcessing := False \<rparr>, [m])
              | Inl err \<Rightarrow>
                  (f1\<lparr> processingError :=
                         Some (case err of
                                 ThrownError msg \<Rightarrow> msg
                               | ThrownString t \<Rightarrow> ''Failed to process weather data''
                               | ThrownOther \<Rightarrow> ''Failed to process weather data''),
                       isProcessing := False \<rparr>,
                   [])))"


section \<open>The simulator of the engine\<close>

text \<open>
  Modelled from the spec: \<open>run_simulation\<close> of the Rust engine (the module
  \<open>rust_core\<close> that the hook imports), of which the sources hold only the declaration
  \<open>run_simulation: (days: number, initialState: string) => any\<close>. The specification's
  trajectory simulator: the horizon is an integer from 1 to 365 and the initial state a
  state of the matrix, or the call fails with a validation error; day 0 is the initial
  state; for each later day a uniform value \<open>r\<close> is drawn and the first state, in the
  order of the matrix, whose cumulative probability in the row of the current state is at
  least \<open>r\<close> is selected; a day records its index and the timestamp of the start plus its
  index times the length of a day. The declared function has no seed parameter, so the
  values drawn come from the entropy source of the process: \<open>draws k\<close> is the value
  drawn for day \<open>k\<close>. The specification does not say what happens when no cumulative
  probability reaches \<open>r\<close> or a row is missing; the model fails there.
\<close>

record engine_context =
  transition_rows :: "real list list"
  state_names :: "string list"
  start_timestamp :: real
  day_length :: real

definition nth_opt :: "'a list \<Rightarrow> nat \<Rightarrow> 'a option" where
  "nth_opt xs i = (if i < length xs then Some (xs ! i) else None)"

fun select_state :: "real list \<Rightarrow> real \<Rightarrow> real \<Rightarrow> nat \<Rightarrow> nat option" where
  "select_state [] cumulative r j = None"
| "select_state (p # ps) cumulative r j =
     (if r \<le> cumulative + p then Some j else select_state ps (cumulative + p) r (Suc j))"

definition simulated_day :: "engine_context \<Rightarrow> nat \<Rightarrow> string \<Rightarrow> SimulationDay" where
  "simulated_day ctx k name =
     \<lparr> day = Fin (real k), state = name,
       timestamp = Fin (start_timestamp ctx + real k * day_length ctx) \<rparr>"

fun walk ::
  "engine_context \<Rightarrow> (nat \<Rightarrow> real) \<Rightarrow> nat \<Rightarrow> nat \<Rightarrow> nat \<Rightarrow> SimulationDay list option" where
  "walk ctx draws current k 0 = Some []"
| "walk ctx draws current k (Suc n) =
     (case nth_opt (transition_rows ctx) current of
        None \<Rightarrow> None
      | Some row \<Rightarrow>
     (case select_state row 0 (draws k) 0 of
        None \<Rightarrow> None
      | Some j \<Rightarrow>
     (case nth_opt (state_names ctx) j of
        None \<Rightarrow> None
      | Some name \<Rightarrow>
     (case walk ctx draws j (Suc k) n of
        None \<Rightarrow> None
      | Some rest \<Rightarrow> Some (simulated_day ctx k name # rest)))))"

definition horizon :: "number \<Rightarrow> nat option" where
  "horizon n =
     (case n of
        Fin x \<Rightarrow> if x = of_int \<lfloor>x\<rfloor> \<and> 1 \<le> x \<and> x \<le> 365 then Some (nat \<lfloor>x\<rfloor>) else None
      | PosInf \<Rightarrow> None
      | NegInf \<Rightarrow> None
      | NaN \<Rightarrow> None)"

definition spec_run_simulation ::
  "engine_context \<Rightarrow> (nat \<Rightarrow> real) \<Rightarrow> number \<Rightarrow> string \<Rightarrow> thrown + SimulationDay list" where
  "spec_run_simulation ctx draws n s =
     (case horizon n of
        None \<Rightarrow> Inl (ThrownString ''ValidationError'')
      | Some N \<Rightarrow>
     (case List.find (\<lambda>i. state_names ctx ! i = s) [0 ..< length (state_names ctx)] of
        None \<Rightarrow> Inl (ThrownString ''ValidationError'')
      | Some i \<Rightarrow>
     (case walk ctx draws i 1 (N - 1) of
        None \<Rightarrow> Inl (ThrownString ''NumericAnomaly'')
      | Some rest \<Rightarrow> Inr (simulated_day ctx 0 s # rest))))"

text \<open>
  A module whose \<open>run_simulation\<close> is this simulator, for a matrix context and the
  values its entropy source yields; only that function is modelled, the other two fail.
\<close>

definition simulator_module :: "engine_context \<Rightarrow> (nat \<Rightarrow> real) \<Rightarrow> WASMModule" where
  "simulator_module ctx draws =
     \<lparr> init_markov_engine = None,
       process_weather_data = (\<lambda>jsonData. Inl ThrownOther),
       run_simulation = spec_run_simulation ctx draws,
       get_statistics = Inl ThrownOther \<rparr>"

definition ready_hook :: "WASMModule \<Rightarrow> hook_state" where
  "ready_hook m = fst (loadWASM (Inr m) True hook_initial)"

text \<open>
  The chain of the fixture as a context of the simulator, and two entropy sources: one
  always yields 1/4, the other 3/4.
\<close>

definition fixture_context :: engine_context where
  "fixture_context =
     \<lparr> transition_rows = [[1/2, 1/2], [1/3, 2/3]],
       state_names = [''Sunny'', ''Rainy''],
       start_timestamp = 0, day_length = 86400 \<rparr>"

definition low_draws :: "nat \<Rightarrow> real" where
  "low_draws k = 1/4"

definition high_draws :: "nat \<Rightarrow> real" where
  "high_draws k = 3/4"

text \<open>A source that agrees with the first on the draw of day 1 and differs afterwards.\<close>

definition late_draws :: "nat \<Rightarrow> real" where
  "late_draws k = (if k < 2 then 1/4 else 3/4)"



section \<open>Properties of the statistics panel\<close>

text \<open>
  C1. The claim: when \<open>averageStreaks\<close> supplies no value for a state, the expected run
  length computed for it is \<open>1 / (1 - p_self)\<close> with \<open>p_self\<close> the diagonal entry of the
  transition matrix, so 2 for a self-transition probability of 1/2. The code reads the
  steady-state probability of the state instead: for the chain of the fixture, whose
  Sunny row has the diagonal entry 1/2 and whose stationary probability of Sunny is 2/5,
  \<open>calculateAverageStreak\<close> returns 5/3, where the formula of the claim gives 2.
\<close>

theorem calculateAverageStreak_reads_steady_state:
  "self_transition fixture_matrix ''Sunny'' = Some (Fin (1/2)) \<and>
   spec_expected_run_length fixture_matrix ''Sunny'' = Some (Fin 2) \<and>
   field fixture_statistics ''averageStreaks'' = None \<and>
   calculateAverageStreak fixture_statistics ''Sunny'' = Inr (Fin (5/3))"
  by (simp add: self_transition_def spec_expected_run_length_def fixture_matrix_def
      fixture_statistics_def calculateAverageStreak_def field_def lookup_def js_gt_def)

lemma truthy_not_NaN: "truthy v \<Longrightarrow> v \<noteq> NaN"
  by (cases v) simp_all

lemma estimate_not_NaN:
  "(if js_gt p (Fin 0) then js_div (Fin 1) (js_sub (Fin 1) p) else Fin 1) \<noteq> NaN"
  by (cases p) (simp_all add: js_gt_def)

lemma calculateAverageStreak_supplied:
  "calculateAverageStreak statistics s =
     (case supplied_streak statistics s of
        Some v \<Rightarrow> Inr v
      | None \<Rightarrow>
          (case field statistics ''steadyState'' of
             None \<Rightarrow> Inl TypeError
           | Some steadyState \<Rightarrow>
               let selfProb = (case lookup steadyState s of
                                 None \<Rightarrow> Fin 0
                               | Some p \<Rightarrow> if truthy p then p else Fin 0)
               in Inr (if js_gt selfProb (Fin 0)
                       then js_div (Fin 1) (js_sub (Fin 1) selfProb)
                       else Fin 1)))"
  by (simp add: calculateAverageStreak_def supplied_streak_def Let_def split: option.splits)

lemma calculateAverageStreak_not_NaN: "calculateAverageStreak statistics s \<noteq> Inr NaN"
proof (cases "supplied_streak statistics s")
  case (Some v)
  then have "truthy v"
    by (auto simp: supplied_streak_def split: option.splits if_splits)
  with Some show ?thesis
    by (simp add: calculateAverageStreak_supplied truthy_not_NaN)
next
  case None
  then show ?thesis
    by (simp add: calculateAverageStreak_supplied Let_def estimate_not_NaN split: option.splits)
qed

text \<open>
  C2, as claimed: for an absorbing state the expected run length is reported as a
  distinct sentinel, never as Infinity or NaN passed through. It fails for the chain
  with one absorbing state: \<open>calculateAverageStreak\<close> divides 1 by \<open>1 - 1\<close> and returns
  Infinity, and the card of the state shows the text of \<open>Infinity.toFixed(2)\<close>.
\<close>

theorem absorbing_state_shows_Infinity:
  "self_transition absorbing_matrix ''Sunny'' = Some (Fin 1) \<and>
   calculateAverageStreak absorbing_statistics ''Sunny'' = Inr PosInf \<and>
   map_sum id streakCards (StatisticsPanel absorbing_statistics) =
     Inr [(''Sunny'', Text ''Infinity'')]"
  by (simp add: self_transition_def absorbing_matrix_def absorbing_statistics_def
      calculateAverageStreak_def field_def lookup_def js_gt_def StatisticsPanel_def
      Object_entries_def Object_keys_def chart_data_def)

text \<open>
  C2, amended: there is no sentinel, the expected run length is a number. When
  \<open>averageStreaks\<close> supplies no value for a state and the probability that
  \<open>calculateAverageStreak\<close> reads for it is exactly 1, the result is the value Infinity,
  which \<open>toFixed(2)\<close> renders as the text "Infinity". The result is never NaN, for any
  statistics object and state.
\<close>

theorem absorbing_state_is_Infinity:
  assumes "supplied_streak statistics s = None"
    and "field statistics ''steadyState'' = Some steadyState"
    and "lookup steadyState s = Some (Fin 1)"
  shows "calculateAverageStreak statistics s = Inr PosInf \<and>
         toFixed 2 PosInf = Text ''Infinity'' \<and>
         calculateAverageStreak statistics' s' \<noteq> Inr NaN"
proof -
  have "calculateAverageStreak statistics s = Inr PosInf"
    using assms by (simp add: calculateAverageStreak_supplied js_gt_def)
  then show ?thesis
    by (simp add: calculateAverageStreak_not_NaN)
qed

theorem absorbing_state_is_Infinity_witness:
  "supplied_streak absorbing_statistics ''Sunny'' = None \<and>
   field absorbing_statistics ''steadyState'' = Some [(''Sunny'', Fin 1)] \<and>
   lookup [(''Sunny'', Fin 1)] ''Sunny'' = Some (Fin 1) \<and>
   calculateAverageStreak absorbing_statistics ''Sunny'' = Inr PosInf \<and>
   calculateAverageStreak fixture_statistics ''Rainy'' \<noteq> Inr NaN"
proof -
  have a: "supplied_streak absorbing_statistics ''Sunny'' = None"
    by (simp add: supplied_streak_def absorbing_statistics_def field_def)
  have b: "field absorbing_statistics ''steadyState'' = Some [(''Sunny'', Fin 1)]"
    by (simp add: absorbing_statistics_def field_def)
  have c: "lookup [(''Sunny'', Fin 1)] ''Sunny'' = Some (Fin 1)"
    by (simp add: lookup_def)
  from absorbing_state_is_Infinity [OF a b c, of fixture_statistics "''Rainy''"] a b c
  show ?thesis by blast
qed










section \<open>Properties of the rounding to doubles\<close>

text \<open>
  The exponent brackets its argument, and rounding a number within the range of the
  normal doubles changes it by at most the fraction \<open>2^-53\<close> of itself.
\<close>

lemma exponent_bounds_ge1:
  assumes "1 \<le> a"
  shows "2 powi exponent a \<le> a \<and> a < 2 powi (exponent a + 1)"
proof -
  define m where "m = \<lfloor>a\<rfloor>"
  have m: "0 < m" using assms by (simp add: m_def)
  from bitlen_bounds [OF m]
  have lo: "2 ^ nat (bitlen m - 1) \<le> m" and hi: "m < 2 ^ nat (bitlen m)"
    by simp_all
  have b: "1 \<le> bitlen m"
    using m by (simp add: bitlen_alt_def)
  have e: "exponent a = bitlen m - 1"
    using assms by (simp add: exponent_def m_def)
  have "real_of_int (2 ^ nat (bitlen m - 1)) \<le> real_of_int m"
    using lo by linarith
  also have "real_of_int m \<le> a"
    by (simp add: m_def)
  finally have 1: "2 powi exponent a \<le> a"
    using b by (simp add: e power_int_def)
  have "m + 1 \<le> 2 ^ nat (bitlen m)"
    using hi by simp
  then have "real_of_int (m + 1) \<le> real_of_int (2 ^ nat (bitlen m))"
    by linarith
  moreover have "a < real_of_int (m + 1)"
    by (simp add: m_def)
  ultimately have "a < real_of_int (2 ^ nat (bitlen m))"
    by linarith
  then have 2: "a < 2 powi (exponent a + 1)"
    using b by (simp add: e power_int_def)
  from 1 2 show ?thesis ..
qed

lemma exponent_bounds_lt1:
  assumes "0 < a" and "a < 1"
  shows "2 powi exponent a \<le> a \<and> a < 2 powi (exponent a + 1)"
proof -
  define m where "m = \<lfloor>1 / a\<rfloor>"
  define k where "k = bitlen m"
  have ia: "1 < 1 / a" using assms by simp
  have m: "0 < m" using ia by (simp add: m_def)
  from bitlen_bounds [OF m]
  have lo: "2 ^ nat (k - 1) \<le> m" and hi: "m < 2 ^ nat k"
    by (simp_all add: k_def)
  have b: "1 \<le> k"
    using m by (simp add: k_def bitlen_alt_def)
  have "real_of_int (2 ^ nat (k - 1)) \<le> real_of_int m"
    using lo by linarith
  also have "real_of_int m \<le> 1 / a"
    by (simp add: m_def)
  finally have l: "2 ^ nat (k - 1) \<le> 1 / a"
    by simp
  have "m + 1 \<le> 2 ^ nat k"
    using hi by simp
  then have "real_of_int (m + 1) \<le> real_of_int (2 ^ nat k)"
    by linarith
  moreover have "1 / a < real_of_int (m + 1)"
    by (simp add: m_def)
  ultimately have h: "1 / a < 2 ^ nat k"
    by simp
  have up: "a * 2 ^ nat (k - 1) \<le> 1"
    using l assms(1) by (simp add: field_simps)
  have dn: "1 < a * 2 ^ nat k"
    using h assms(1) by (simp add: field_simps)
  have p1: "(2::real) powi (k - 1) = 2 ^ nat (k - 1)"
    using b by (simp add: power_int_def)
  have p2: "(2::real) powi (1 - k) = 1 / 2 ^ nat (k - 1)"
    using b by (cases "k = 1") (simp_all add: power_int_def field_simps)
  have p3: "(2::real) powi (- k) = 1 / 2 ^ nat k"
    using b by (simp add: power_int_def field_simps)
  have p4: "(2::real) powi (2 - k) = 2 / 2 ^ nat (k - 1)"
    using power_int_add [of "2::real" 1 "1 - k"] p2 by simp
  show ?thesis
  proof (cases "a * 2 powi (k - 1) = 1")
    case True
    then have e: "exponent a = 1 - k"
      using assms by (simp add: exponent_def m_def k_def Let_def)
    have E1: "(2::real) powi exponent a = 1 / 2 ^ nat (k - 1)"
      by (simp add: e p2)
    have "exponent a + 1 = 2 - k"
      by (simp add: e)
    then have E2: "(2::real) powi (exponent a + 1) = 2 / 2 ^ nat (k - 1)"
      by (simp add: p4)
    from True have "a = 1 / 2 ^ nat (k - 1)"
      by (simp add: p1 field_simps)
    then show ?thesis
      unfolding E1 E2 by (simp add: divide_strict_right_mono)
  next
    case False
    then have e: "exponent a = - k"
      using assms by (simp add: exponent_def m_def k_def Let_def)
    from False up have "a * 2 ^ nat (k - 1) < 1"
      by (simp add: p1)
    then have "a < 1 / 2 ^ nat (k - 1)"
      by (simp add: field_simps)
    moreover have "1 / 2 ^ nat k \<le> a"
      using dn by (simp add: field_simps)
    moreover have E1: "(2::real) powi exponent a = 1 / 2 ^ nat k"
      by (simp add: e p3)
    moreover have "exponent a + 1 = 1 - k"
      by (simp add: e)
    then have E2: "(2::real) powi (exponent a + 1) = 1 / 2 ^ nat (k - 1)"
      by (simp add: p2)
    ultimately show ?thesis
      by simp
  qed
qed

lemma exponent_bounds:
  "0 < a \<Longrightarrow> 2 powi exponent a \<le> a \<and> a < 2 powi (exponent a + 1)"
  using exponent_bounds_ge1 [of a] exponent_bounds_lt1 [of a] by (cases "1 \<le> a") simp_all


lemma round_half_even_error: "\<bar>real_of_int (round_half_even q) - q\<bar> \<le> 1/2"
  unfolding round_half_even_def Let_def by (auto simp: abs_le_iff)

lemma exponent_lower:
  assumes "0 < a" and "2 powi n \<le> a"
  shows "n \<le> exponent a"
proof -
  from exponent_bounds [OF assms(1)] assms(2)
  have strict: "(2::real) powi n < 2 powi (exponent a + 1)"
    by linarith
  have "n < exponent a + 1"
  proof (rule ccontr)
    assume "\<not> n < exponent a + 1"
    then have "exponent a + 1 \<le> n"
      by simp
    then have "(2::real) powi (exponent a + 1) \<le> 2 powi n"
      by (rule power_int_increasing) simp
    with strict show False
      by simp
  qed
  then show ?thesis by simp
qed

lemma binary64_error:
  assumes "2 powi (- 1022) \<le> a" and "a < 2 powi 1023"
  shows "\<exists>y. binary64 a = Fin y \<and> \<bar>y - a\<bar> \<le> a / 2 ^ 53"
proof -
  have "(0::real) < 2 powi (- 1022)"
    by (rule zero_less_power_int) simp
  with assms(1) have pos: "0 < a"
    by linarith
  define e where "e = exponent a"
  define u :: real where "u = 2 powi (e - 52)"
  define y where "y = real_of_int (round_half_even (a / u)) * u"
  have e: "- 1022 \<le> e"
    unfolding e_def using pos assms(1) by (rule exponent_lower)
  have u: "0 < u"
    by (simp add: u_def)
  have lo: "2 powi e \<le> a"
    using exponent_bounds [OF pos] by (simp add: e_def)
  have "\<bar>y - a\<bar> = u * \<bar>real_of_int (round_half_even (a / u)) - a / u\<bar>"
    using u by (simp add: add_divide_eq_if_simps(4) y_def)
  also have "\<dots> \<le> u * (1/2)"
    using u round_half_even_error [of "a / u"] by (simp del: times_divide_eq_right)
  also have "u * (1/2) = 2 powi e / 2 ^ 53"
  proof -
    have "u = 2 powi e * 2 powi (- 52)"
      unfolding u_def using power_int_add [of "2::real" e "- 52"] by simp
    moreover have "(2::real) powi (- 52) = 1 / 2 ^ 52"
      by (simp add: inverse_eq_divide)
    ultimately show ?thesis
      by simp
  qed
  also have "\<dots> \<le> a / 2 ^ 53"
    using lo by (simp add: divide_right_mono)
  finally have err: "\<bar>y - a\<bar> \<le> a / 2 ^ 53" .
  have "y \<le> a + a / 2 ^ 53"
    using err by linarith
  also have "\<dots> < 2 powi 1023 + 2 powi 1023"
    using assms(2) pos by simp
  also have "\<dots> = 2 powi 1024"
    by simp
  finally have ov: "\<not> 2 powi 1024 \<le> y"
    by simp
  have "binary64 a = Fin y"
    using pos e ov by (simp add: binary64_def Let_def y_def u_def e_def max_def)
  with err show ?thesis by blast
qed

lemma percentage_error:
  assumes "0 < n" and "c \<le> n" and "n < 2 ^ 32"
  shows "\<exists>x. double_mul (double_div (Fin (real c)) (Fin (real n))) (Fin 100) = Fin x \<and>
             \<bar>x - 100 * real c / real n\<bar> \<le> 100 * real c / real n / 2 ^ 51"
proof (cases "c = 0")
  case True
  then show ?thesis
    using assms(1) by (simp add: double_mul_def double_div_def fl_def binary64_def)
next
  case False
  define a where "a = real c / real n"
  have n: "0 < real n" and c: "1 \<le> real c"
    using assms(1) False by simp_all
  have a1: "a \<le> 1"
    using assms(1,2) by (simp add: a_def)
  have "1 / 2 ^ 32 \<le> 1 / real n"
    using assms(1,3) by (simp add: frac_le)
  also have "1 / real n \<le> a"
    using n c by (simp add: a_def divide_right_mono)
  finally have a0: "1 / 2 ^ 32 \<le> a" .
  have small: "(2::real) powi (- 1022) \<le> 1 / 2 ^ 32"
    by (simp add: inverse_eq_divide)
  have big: "(200::real) < 2 powi 1023"
    by simp
  have "2 powi (- 1022) \<le> a" and "a < 2 powi 1023"
    using a0 a1 small big by linarith+
  from binary64_error [OF this]
  obtain q where q: "binary64 a = Fin q" and qe: "\<bar>q - a\<bar> \<le> a / 2 ^ 53"
    by blast
  have "(0::real) < 1 / 2 ^ 32"
    by simp
  with a0 have apos: "0 < a"
    by linarith
  have "a / 2 ^ 53 \<le> a / 2"
    using apos by (simp add: field_simps)
  with qe have q_lo: "a / 2 \<le> q" and q_hi: "q \<le> 2 * a"
    using apos by linarith+
  have "2 powi (- 1022) \<le> q * 100" and "q * 100 < 2 powi 1023"
    using q_lo q_hi a0 a1 small big by linarith+
  from binary64_error [OF this]
  obtain x where x: "binary64 (q * 100) = Fin x" and xe: "\<bar>x - q * 100\<bar> \<le> q * 100 / 2 ^ 53"
    by blast
  have val: "double_mul (double_div (Fin (real c)) (Fin (real n))) (Fin 100) = Fin x"
    using assms(1) q x by (simp add: double_mul_def double_div_def fl_def a_def)
  have "x - 100 * a = (x - q * 100) + 100 * (q - a)"
    by simp
  then have "\<bar>x - 100 * a\<bar> \<le> \<bar>x - q * 100\<bar> + \<bar>100 * (q - a)\<bar>"
    by (simp only: abs_triangle_ineq)
  also have "\<bar>100 * (q - a)\<bar> = 100 * \<bar>q - a\<bar>"
    by (simp only: abs_mult abs_numeral)
  finally have "\<bar>x - 100 * a\<bar> \<le> \<bar>x - q * 100\<bar> + 100 * \<bar>q - a\<bar>" .
  also have "\<dots> \<le> q * 100 / 2 ^ 53 + 100 * (a / 2 ^ 53)"
    using xe qe by (intro add_mono mult_left_mono) simp_all
  also have "\<dots> \<le> 2 * a * 100 / 2 ^ 53 + 100 * (a / 2 ^ 53)"
    using q_hi by (simp add: divide_right_mono)
  also have "\<dots> \<le> 100 * a / 2 ^ 51"
    using apos by (simp add: field_simps)
  finally have "\<bar>x - 100 * a\<bar> \<le> 100 * a / 2 ^ 51" .
  with val show ?thesis
    by (auto simp: a_def)
qed


section \<open>Properties of the weather timeline\<close>

lemma double_23_of_80:
  "double_mul (double_div (Fin 23) (Fin 80)) (Fin 100) =
     Fin (8092405580431359 / 281474976710656)"
  by code_simp

lemma double_1_of_3:
  "double_mul (double_div (Fin 1) (Fin 3)) (Fin 100) =
     Fin (2345624805922133 / 70368744177664)"
  by code_simp

lemma double_0_of: "n \<noteq> 0 \<Longrightarrow> double_mul (double_div (Fin 0) (Fin n)) (Fin 100) = Fin 0"
  by (simp add: double_mul_def double_div_def fl_def binary64_def)

lemma filter_day_with:
  "filter (\<lambda>d. state d = s) (map (day_with t) ks) = (if t = s then map (day_with t) ks else [])"
  by (induction ks) (simp_all add: day_with_def)

lemma eighty_days_counts:
  "length eighty_days = 80"
  "length (filter (\<lambda>d. state d = ''Sunny'') eighty_days) = 23"
  unfolding eighty_days_def filter_append filter_day_with by simp_all

text \<open>
  C7, as claimed: for every non-empty trajectory and every state, the summary reports
  the number of entries with that state and that number divided by the length of the
  trajectory, times 100. It fails for a state that is no key of \<open>stateColors\<close>: of the
  three days Sunny, Snowy, Snowy, two are Snowy, and the summary holds the cards of
  Sunny, Rainy and Cloudy only.
\<close>

theorem summary_skips_other_states:
  "summary_statistics snowy_days =
     [(''Sunny'', 1, Fixed 1 (2345624805922133 / 70368744177664)),
      (''Rainy'', 0, Fixed 1 0), (''Cloudy'', 0, Fixed 1 0)] \<and>
   count_list (map state snowy_days) ''Snowy'' = 2"
  by (simp add: summary_statistics_def stateColors_def snowy_days_def day_with_def
      double_1_of_3 double_0_of)

text \<open>
  C7, amended: for every non-empty trajectory (of fewer than \<open>2^32\<close> entries, as every
  array) the summary holds exactly the cards of Sunny, Rainy and Cloudy, in this order.
  The count of a card is the number of entries of the trajectory with its state. Its
  percentage is the text, with one decimal, of \<open>(count / length) * 100\<close> as computed in
  doubles, a number that differs from the exact percentage by at most the fraction
  \<open>2^-51\<close> of it.
\<close>

theorem summary_statistics_cards:
  assumes "simulationData \<noteq> []" and "length simulationData < 2 ^ 32"
  shows "map fst (summary_statistics simulationData) = [''Sunny'', ''Rainy'', ''Cloudy''] \<and>
         ((s, c, p) \<in> set (summary_statistics simulationData) \<longrightarrow>
            c = card {i. i < length simulationData \<and> state (simulationData ! i) = s} \<and>
            p = toFixed 1 (double_mul (double_div (Fin (real c))
                                                  (Fin (real (length simulationData))))
                                      (Fin 100)) \<and>
            (\<exists>x. p = Fixed 1 x \<and>
                 \<bar>x - 100 * real c / real (length simulationData)\<bar>
                   \<le> 100 * real c / real (length simulationData) / 2 ^ 51))"
proof (intro conjI impI)
  show "map fst (summary_statistics simulationData) = [''Sunny'', ''Rainy'', ''Cloudy'']"
    by (simp add: summary_statistics_def stateColors_def Let_def)
next
  assume mem: "(s, c, p) \<in> set (summary_statistics simulationData)"
  have n: "0 < length simulationData"
    using assms(1) by simp
  from mem have c: "c = length (filter (\<lambda>d. state d = s) simulationData)"
    and p: "p = toFixed 1 (double_mul (double_div (Fin (real c))
                                                  (Fin (real (length simulationData))))
                                      (Fin 100))"
    by (auto simp: summary_statistics_def stateColors_def Let_def)
  show "c = card {i. i < length simulationData \<and> state (simulationData ! i) = s}"
    unfolding c by (rule length_filter_conv_card)
  show "p = toFixed 1 (double_mul (double_div (Fin (real c))
                                              (Fin (real (length simulationData))))
                                  (Fin 100))"
    by (rule p)
  have "c \<le> length simulationData"
    unfolding c by (rule length_filter_le)
  from percentage_error [OF n this assms(2)]
  show "\<exists>x. p = Fixed 1 x \<and>
          \<bar>x - 100 * real c / real (length simulationData)\<bar>
            \<le> 100 * real c / real (length simulationData) / 2 ^ 51"
    unfolding p by auto
qed

theorem summary_statistics_cards_witness:
  "eighty_days \<noteq> [] \<and> length eighty_days < 2 ^ 32 \<and>
   (''Sunny'', 23, Fixed 1 (8092405580431359 / 281474976710656))
     \<in> set (summary_statistics eighty_days) \<and>
   23 = card {i. i < length eighty_days \<and> state (eighty_days ! i) = ''Sunny''} \<and>
   fixed_digits 1 (8092405580431359 / 281474976710656) = 287 \<and>
   fixed_digits 1 (100 * 23 / 80) = 288"
proof -
  have a: "eighty_days \<noteq> []"
    using eighty_days_counts(1) by auto
  have b: "length eighty_days < 2 ^ 32"
    by (simp add: eighty_days_counts)
  have c: "(''Sunny'', 23, Fixed 1 (8092405580431359 / 281474976710656))
             \<in> set (summary_statistics eighty_days)"
    by (simp add: summary_statistics_def stateColors_def eighty_days_counts double_23_of_80)
  have d: "fixed_digits 1 (8092405580431359 / 281474976710656) = 287"
    "fixed_digits 1 (100 * 23 / 80) = 288"
    by (simp_all add: fixed_digits_def)
  from summary_statistics_cards
    [OF a b, of "''Sunny''" 23 "Fixed 1 (8092405580431359 / 281474976710656)"] c
  have "23 = card {i. i < length eighty_days \<and> state (eighty_days ! i) = ''Sunny''}"
    by blast
  with a b c d show ?thesis
    by blast
qed


section \<open>Properties of the simulation control\<close>

lemma control_run_Cons:
  "control_step props ev c = (c', calls) \<Longrightarrow>
   snd (control_run ((props, ev) # evs) c) = calls @ snd (control_run evs c')"
  by (simp split: prod.splits)

text \<open>
  Through the rendered control, the callback only ever receives days within the bound:
  the run button is disabled while a validation error is shown.
\<close>

lemma handleDaysChange_checked: "days_checked (handleDaysChange input c)"
  by (cases "parseInt10 input")
     (auto simp: days_checked_def days_in_range_def handleDaysChange_def Let_def js_gt_def)

lemma control_step_checked:
  assumes "days_checked c"
  shows "days_checked (fst (control_step props ev c)) \<and>
         list_all (\<lambda>call. days_in_range (fst call)) (snd (control_step props ev c))"
proof (cases ev)
  case (TypeDays input)
  then show ?thesis
    using assms by (simp add: control_step_def handleDaysChange_checked)
next
  case (ChooseOption i)
  then show ?thesis
    using assms by (simp add: control_step_def handleInitialStateChange_def days_checked_def)
next
  case ClickRun
  then show ?thesis
    using assms
    by (cases "days c")
       (auto simp: control_step_def isDisabled_def handleRunSimulation_def days_checked_def
        days_in_range_def js_gt_def)
qed

lemma control_run_checked:
  "days_checked c \<Longrightarrow> list_all (\<lambda>call. days_in_range (fst call)) (snd (control_run evs c))"
proof (induction evs arbitrary: c)
  case Nil
  show ?case by simp
next
  case (Cons e evs)
  obtain props ev where e: "e = (props, ev)"
    by (cases e)
  obtain c' calls where st: "control_step props ev c = (c', calls)"
    by (cases "control_step props ev c")
  from control_step_checked [OF Cons.prems, of props ev] st
  have c': "days_checked c'"
    and calls: "list_all (\<lambda>call. days_in_range (fst call)) calls"
    by simp_all
  from Cons.IH [OF c'] calls show ?case
    by (simp add: e control_run_Cons [OF st] del: control_run.simps)
qed

lemma control_run_calls_in_range:
  "list_all (\<lambda>call. days_in_range (fst call)) (snd (control_run evs control_initial))"
  by (rule control_run_checked) (simp add: days_checked_def days_in_range_def control_initial_def)

lemma control_run_fst:
  "control_step props ev c = (c', calls) \<Longrightarrow>
   fst (control_run ((props, ev) # evs) c) = fst (control_run evs c')"
  by (simp split: prod.splits)

lemma control_run_state_checked:
  "days_checked c \<Longrightarrow> days_checked (fst (control_run evs c))"
proof (induction evs arbitrary: c)
  case Nil
  then show ?case by simp
next
  case (Cons e evs)
  obtain props ev where e: "e = (props, ev)"
    by (cases e)
  obtain c' calls where st: "control_step props ev c = (c', calls)"
    by (cases "control_step props ev c")
  from control_step_checked [OF Cons.prems, of props ev] st
  have "days_checked c'"
    by simp
  from Cons.IH [OF this] show ?case
    by (simp add: e control_run_fst [OF st] del: control_run.simps)
qed

lemma handleRunSimulation_numeric:
  "days c \<noteq> NaN \<Longrightarrow>
   handleRunSimulation c =
     (if days_in_range (days c)
      then (c\<lparr> validationError := None \<rparr>, [(days c, initialState c)])
      else (c\<lparr> validationError := Some ''Days must be between 1 and 365'' \<rparr>, []))"
  by (cases "days c") (auto simp: handleRunSimulation_def days_in_range_def js_gt_def)

text \<open>
  C5. \<open>handleRunSimulation\<close> is the click handler of the run button and has no other
  caller, so it is invoked in a state that the control has reached, while the button is
  enabled. In every such state the days are a number from 1 to 365, never NaN. For days
  that are a number, the handler invokes \<open>onSimulate\<close>, once and with these days and the
  initial state, if and only if the days are from 1 to 365; otherwise it records a
  validation error and invokes nothing. Whatever the user does, \<open>onSimulate\<close> only ever
  receives days from 1 to 365.
\<close>

theorem handleRunSimulation_validates:
  "(days c \<noteq> NaN \<longrightarrow>
      handleRunSimulation c =
        (if days_in_range (days c)
         then (c\<lparr> validationError := None \<rparr>, [(days c, initialState c)])
         else (c\<lparr> validationError := Some ''Days must be between 1 and 365'' \<rparr>, []))) \<and>
   (\<not> isDisabled props (fst (control_run evs control_initial)) \<longrightarrow>
      days_in_range (days (fst (control_run evs control_initial))) \<and>
      days (fst (control_run evs control_initial)) \<noteq> NaN) \<and>
   list_all (\<lambda>call. days_in_range (fst call)) (snd (control_run evs control_initial))"
proof (intro conjI impI)
  assume "days c \<noteq> NaN"
  then show "handleRunSimulation c =
        (if days_in_range (days c)
         then (c\<lparr> validationError := None \<rparr>, [(days c, initialState c)])
         else (c\<lparr> validationError := Some ''Days must be between 1 and 365'' \<rparr>, []))"
    by (rule handleRunSimulation_numeric)
next
  have init: "days_checked control_initial"
    by (simp add: days_checked_def days_in_range_def control_initial_def)
  show "list_all (\<lambda>call. days_in_range (fst call)) (snd (control_run evs control_initial))"
    by (rule control_run_calls_in_range)
  assume en: "\<not> isDisabled props (fst (control_run evs control_initial))"
  from control_run_state_checked [OF init, of evs] en
  show r: "days_in_range (days (fst (control_run evs control_initial)))"
    by (simp add: days_checked_def isDisabled_def)
  then show "days (fst (control_run evs control_initial)) \<noteq> NaN"
    by (auto simp: days_in_range_def)
qed

lemma parseInt10_7: "parseInt10 ''7'' = Fin 7"
  by code_simp

theorem handleRunSimulation_validates_witness:
  "days out_of_range_control \<noteq> NaN \<and>
   handleRunSimulation out_of_range_control =
     (\<lparr> days = Fin 400, initialState = ''Rainy'',
        validationError = Some ''Days must be between 1 and 365'' \<rparr>, []) \<and>
   \<not> isDisabled (control_props_of snowy_app)
        (fst (control_run [(control_props_of snowy_app, TypeDays ''7'')] control_initial)) \<and>
   days (fst (control_run [(control_props_of snowy_app, TypeDays ''7'')] control_initial)) =
     Fin 7 \<and>
   snd (control_run [(control_props_of snowy_app, TypeDays ''7''),
                     (control_props_of snowy_app, ClickRun)] control_initial) =
     [(Fin 7, ''Sunny'')]"
proof -
  have a: "days out_of_range_control \<noteq> NaN"
    by (simp add: out_of_range_control_def)
  have b: "\<not> isDisabled (control_props_of snowy_app)
        (fst (control_run [(control_props_of snowy_app, TypeDays ''7'')] control_initial))"
    and d: "days (fst (control_run [(control_props_of snowy_app, TypeDays ''7'')]
                         control_initial)) = Fin 7"
    and e: "snd (control_run [(control_props_of snowy_app, TypeDays ''7''),
                     (control_props_of snowy_app, ClickRun)] control_initial) =
            [(Fin 7, ''Sunny'')]"
    by (simp_all add: snowy_app_def control_props_of_def control_step_def control_initial_def
        handleDaysChange_def parseInt10_7 isDisabled_def handleRunSimulation_def js_gt_def
        Let_def)
  from handleRunSimulation_validates
    [of out_of_range_control "control_props_of snowy_app"
        "[(control_props_of snowy_app, TypeDays ''7'')]"] a
  have "handleRunSimulation out_of_range_control =
     (\<lparr> days = Fin 400, initialState = ''Rainy'',
        validationError = Some ''Days must be between 1 and 365'' \<rparr>, [])"
    by (simp add: out_of_range_control_def days_in_range_def)
  with a b d e show ?thesis
    by blast
qed







section \<open>Properties of the hook\<close>

lemma hook_after_module:
  "wasmModule (hook_after loads h) = Some m \<Longrightarrow>
   wasmModule h = Some m \<or> ((Inr m, True) \<in> set loads \<and> init_markov_engine m = None)"
proof (induction loads arbitrary: h)
  case Nil
  then show ?case by simp
next
  case (Cons l loads)
  obtain loaded mounted where l: "l = (loaded, mounted)"
    by (cases l)
  from Cons.prems l
  have "wasmModule (hook_after loads (fst (loadWASM loaded mounted h))) = Some m"
    by simp
  from Cons.IH [OF this]
  show ?case
    by (auto simp: l loadWASM_def Let_def split: sum.splits option.splits if_splits)
qed

text \<open>
  C9. A call of \<open>processData\<close>, \<open>runSimulation\<close> or \<open>getStatistics\<close> while the module
  is not loaded or not ready rejects with the error "WASM module not ready" and calls no
  function of the engine. In a state of the hook that runs of the loader produced, a
  wrapper that calls the engine holds a module that one of these runs stored while the
  component was mounted, after \<open>init_markov_engine\<close> returned normally.
\<close>

theorem engine_called_only_when_ready:
  "(wasmModule h = None \<or> \<not> isReady h \<longrightarrow>
      processData h j = (Inl (ThrownError ''WASM module not ready''), []) \<and>
      runSimulation h n s = (Inl (ThrownError ''WASM module not ready''), []) \<and>
      getStatistics h = (Inl (ThrownError ''WASM module not ready''), [])) \<and>
   (h = hook_after loads hook_initial \<and>
    (snd (processData h j) \<noteq> [] \<or> snd (runSimulation h n s) \<noteq> [] \<or>
     snd (getStatistics h) \<noteq> []) \<longrightarrow>
      (\<exists>m. (Inr m, True) \<in> set loads \<and> init_markov_engine m = None \<and>
           wasmModule h = Some m \<and> isReady h))"
proof (intro conjI impI)
  assume "wasmModule h = None \<or> \<not> isReady h"
  then show "processData h j = (Inl (ThrownError ''WASM module not ready''), [])"
    and "runSimulation h n s = (Inl (ThrownError ''WASM module not ready''), [])"
    and "getStatistics h = (Inl (ThrownError ''WASM module not ready''), [])"
    by (auto simp: processData_def runSimulation_def getStatistics_def not_ready_def
        split: option.splits)
next
  assume a: "h = hook_after loads hook_initial \<and>
    (snd (processData h j) \<noteq> [] \<or> snd (runSimulation h n s) \<noteq> [] \<or>
     snd (getStatistics h) \<noteq> [])"
  then obtain m where m: "wasmModule h = Some m" and r: "isReady h"
    by (auto simp: processData_def runSimulation_def getStatistics_def
        split: option.splits if_splits)
  from a m hook_after_module [of loads hook_initial m]
  have "(Inr m, True) \<in> set loads \<and> init_markov_engine m = None"
    by (simp add: hook_initial_def)
  with m r show "\<exists>m. (Inr m, True) \<in> set loads \<and> init_markov_engine m = None \<and>
           wasmModule h = Some m \<and> isReady h"
    by blast
qed

theorem engine_called_only_when_ready_witness:
  "wasmModule hook_initial = None \<and>
   processData hook_initial ''{}'' = (Inl (ThrownError ''WASM module not ready''), []) \<and>
   runSimulation hook_initial (Fin 30) ''Sunny'' =
     (Inl (ThrownError ''WASM module not ready''), []) \<and>
   getStatistics hook_initial = (Inl (ThrownError ''WASM module not ready''), []) \<and>
   snd (runSimulation
          (hook_after [(Inr (simulator_module fixture_context low_draws), True)] hook_initial)
          (Fin 2) ''Sunny'') \<noteq> [] \<and>
   init_markov_engine (simulator_module fixture_context low_draws) = None \<and>
   isReady (hook_after [(Inr (simulator_module fixture_context low_draws), True)] hook_initial)"
proof -
  have none: "wasmModule hook_initial = None"
    by (simp add: hook_initial_def)
  have called: "snd (runSimulation
          (hook_after [(Inr (simulator_module fixture_context low_draws), True)] hook_initial)
          (Fin 2) ''Sunny'') \<noteq> []"
    by (simp add: runSimulation_def loadWASM_def hook_initial_def simulator_module_def
        split: sum.splits)
  have init: "init_markov_engine (simulator_module fixture_context low_draws) = None"
    by (simp add: simulator_module_def)
  from engine_called_only_when_ready [of hook_initial "''{}''" "Fin 30" "''Sunny''"] none
  have first: "processData hook_initial ''{}'' =
        (Inl (ThrownError ''WASM module not ready''), []) \<and>
      runSimulation hook_initial (Fin 30) ''Sunny'' =
        (Inl (ThrownError ''WASM module not ready''), []) \<and>
      getStatistics hook_initial = (Inl (ThrownError ''WASM module not ready''), [])"
    by blast
  from engine_called_only_when_ready
    [of "hook_after [(Inr (simulator_module fixture_context low_draws), True)] hook_initial"
        _ "Fin 2" "''Sunny''"
        "[(Inr (simulator_module fixture_context low_draws), True)]"] called
  have "isReady
      (hook_after [(Inr (simulator_module fixture_context low_draws), True)] hook_initial)"
    by blast
  with none first called init show ?thesis
    by blast
qed


section \<open>Properties of the simulator behind the hook\<close>

lemma walk_same_draws:
  "(\<And>j. k \<le> j \<Longrightarrow> j < k + n \<Longrightarrow> draws j = draws' j) \<Longrightarrow>
   walk ctx draws current k n = walk ctx draws' current k n"
proof (induction n arbitrary: current k)
  case 0
  show ?case by simp
next
  case (Suc n)
  have here: "draws k = draws' k"
    using Suc.prems [of k] by simp
  have later: "walk ctx draws j (Suc k) n = walk ctx draws' j (Suc k) n" for j
    by (rule Suc.IH) (simp add: Suc.prems)
  show ?case
    by (simp add: here later cong: option.case_cong)
qed

lemma runSimulation_ready:
  "wasmModule h = Some m \<Longrightarrow> isReady h \<Longrightarrow>
   runSimulation h n s =
     (case run_simulation m n s of
        Inr result \<Rightarrow> (Inr result, [Call_run_simulation n s])
      | Inl err \<Rightarrow> (Inl (ThrownError (error_message err ''Failed to run simulation'')),
                    [Call_run_simulation n s]))"
  by (simp add: runSimulation_def)

lemma ready_hook_simulator:
  "wasmModule (ready_hook (simulator_module ctx draws)) = Some (simulator_module ctx draws)"
  "isReady (ready_hook (simulator_module ctx draws))"
  by (simp_all add: ready_hook_def loadWASM_def simulator_module_def hook_initial_def)

text \<open>
  C3, as claimed: the simulate operation takes a seed, and two invocations with the same
  seed, horizon and initial state return the same trajectory. \<open>runSimulation\<close> takes the
  days and the initial state only, and with the same two arguments the trajectory follows
  the values drawn: from Sunny, a horizon of 2 gives Sunny, Sunny for the draw 1/4 and
  Sunny, Rainy for the draw 3/4.
\<close>

theorem runSimulation_not_reproducible:
  "fst (runSimulation (ready_hook (simulator_module fixture_context low_draws))
          (Fin 2) ''Sunny'') \<noteq>
   fst (runSimulation (ready_hook (simulator_module fixture_context high_draws))
          (Fin 2) ''Sunny'')"
  by (simp add: runSimulation_def ready_hook_def loadWASM_def hook_initial_def
      simulator_module_def spec_run_simulation_def horizon_def fixture_context_def
      low_draws_def high_draws_def nth_opt_def simulated_day_def)

text \<open>
  C3, amended: the simulate operation takes the horizon and the initial state, and no
  seed. Two invocations on the same matrix context with the same horizon \<open>N\<close> and the
  same initial state settle alike, with identical trajectories, whenever the values
  drawn for the days 1 to \<open>N - 1\<close> are the same.
\<close>

theorem runSimulation_depends_on_draws_only:
  assumes "wasmModule h = Some m" and "isReady h"
    and "wasmModule h' = Some m'" and "isReady h'"
    and "run_simulation m = spec_run_simulation ctx draws"
    and "run_simulation m' = spec_run_simulation ctx draws'"
    and "horizon n = Some N"
    and "\<forall>k. 1 \<le> k \<and> k < N \<longrightarrow> draws k = draws' k"
  shows "runSimulation h n s = runSimulation h' n s"
proof -
  have "walk ctx draws i 1 (N - 1) = walk ctx draws' i 1 (N - 1)" for i
    using assms(8) by (intro walk_same_draws) simp
  then have "spec_run_simulation ctx draws n s = spec_run_simulation ctx draws' n s"
    using assms(7) by (simp add: spec_run_simulation_def cong: option.case_cong)
  then show ?thesis
    using assms(1-6) by (simp add: runSimulation_ready)
qed

theorem runSimulation_depends_on_draws_only_witness:
  "wasmModule (ready_hook (simulator_module fixture_context low_draws)) =
     Some (simulator_module fixture_context low_draws) \<and>
   isReady (ready_hook (simulator_module fixture_context low_draws)) \<and>
   horizon (Fin 2) = Some 2 \<and>
   low_draws 1 = late_draws 1 \<and> low_draws 2 \<noteq> late_draws 2 \<and>
   runSimulation (ready_hook (simulator_module fixture_context low_draws)) (Fin 2) ''Rainy'' =
   runSimulation (ready_hook (simulator_module fixture_context late_draws)) (Fin 2) ''Rainy''"
proof -
  have run: "run_simulation (simulator_module c d) = spec_run_simulation c d" for c d
    by (simp add: simulator_module_def)
  have hor: "horizon (Fin 2) = Some 2"
    by (simp add: horizon_def)
  have same: "\<forall>k. 1 \<le> k \<and> k < (2::nat) \<longrightarrow> low_draws k = late_draws k"
    by (simp add: low_draws_def late_draws_def)
  have differ: "low_draws 1 = late_draws 1 \<and> low_draws 2 \<noteq> late_draws 2"
    by (simp add: low_draws_def late_draws_def)
  from runSimulation_depends_on_draws_only
    [OF ready_hook_simulator ready_hook_simulator run run hor same]
    ready_hook_simulator hor differ
  show ?thesis by blast
qed


section \<open>Properties of the shell and the data fetcher\<close>

text \<open>
  C8. When the promise of \<open>processData\<close> rejects, the data fetcher records the
  processing error and does not invoke \<open>onDataFetched\<close>. When the promise of
  \<open>runSimulation\<close> rejects, \<open>handleSimulation\<close> records the error message and ends the
  loading state; nothing else of the state changes, so the simulation results are left as
  they were.
\<close>

theorem rejections_recorded_results_kept:
  assumes "process (stringify d) = Inl err"
    and "transitionMatrix a = Some m" and "run n s = Inl err'"
  shows "handleProcessData stringify process (Some d) f =
           (f\<lparr> isProcessing := False,
               processingError :=
                 Some (case err of
                         ThrownError msg \<Rightarrow> msg
                       | ThrownString t \<Rightarrow> ''Failed to process weather data''
                       | ThrownOther \<Rightarrow> ''Failed to process weather data'') \<rparr>, []) \<and>
         handleSimulation run n s a =
           a\<lparr> isLoading := False,
              error :=
                Some (case err' of
                        ThrownError msg \<Rightarrow> msg
                      | ThrownString t \<Rightarrow> ''Failed to run simulation''
                      | ThrownOther \<Rightarrow> ''Failed to run simulation'') \<rparr> \<and>
         simulationResults (handleSimulation run n s a) = simulationResults a"
  using assms by (simp add: handleProcessData_def handleSimulation_def Let_def)

theorem rejections_recorded_results_kept_witness:
  "hook_processData (ready_hook (simulator_module fixture_context low_draws)) (id ''{}'') =
     Inl (ThrownError ''Failed to process weather data'') \<and>
   transitionMatrix fixture_app = Some fixture_matrix \<and>
   hook_runSimulation (ready_hook (simulator_module fixture_context low_draws)) (Fin 30) ''Snowy'' =
     Inl (ThrownError ''ValidationError'') \<and>
   handleProcessData id
     (hook_processData (ready_hook (simulator_module fixture_context low_draws))) (Some ''{}'')
     \<lparr> isProcessing = False, processingError = None \<rparr> =
     (\<lparr> isProcessing = False, processingError = Some ''Failed to process weather data'' \<rparr>, []) \<and>
   error (handleSimulation
            (hook_runSimulation (ready_hook (simulator_module fixture_context low_draws)))
            (Fin 30) ''Snowy'' fixture_app) = Some ''ValidationError'' \<and>
   simulationResults (handleSimulation
            (hook_runSimulation (ready_hook (simulator_module fixture_context low_draws)))
            (Fin 30) ''Snowy'' fixture_app) =
     Some \<lparr> predictions = sample_days, parameters = (Fin 3, ''Sunny'', ''Mumbai'') \<rparr>"
proof -
  have p: "hook_processData (ready_hook (simulator_module fixture_context low_draws))
             (id ''{}'') = Inl (ThrownError ''Failed to process weather data'')"
    by (simp add: hook_processData_def processData_def ready_hook_def loadWASM_def
        hook_initial_def simulator_module_def error_message_def)
  have t: "transitionMatrix fixture_app = Some fixture_matrix"
    by (simp add: fixture_app_def)
  have r: "hook_runSimulation (ready_hook (simulator_module fixture_context low_draws))
             (Fin 30) ''Snowy'' = Inl (ThrownError ''ValidationError'')"
    by (simp add: hook_runSimulation_def runSimulation_def ready_hook_def loadWASM_def
        hook_initial_def simulator_module_def error_message_def spec_run_simulation_def
        horizon_def fixture_context_def)
  from rejections_recorded_results_kept
    [where process = "hook_processData (ready_hook (simulator_module fixture_context low_draws))"
       and stringify = id and d = "''{}''"
       and run = "hook_runSimulation (ready_hook (simulator_module fixture_context low_draws))"
       and n = "Fin 30" and s = "''Snowy''" and a = fixture_app
       and f = "\<lparr> isProcessing = False, processingError = None \<rparr>",
     OF p t r] p t r
  show ?thesis
    by (simp add: fixture_app_def)
qed

text \<open>
  C10. After \<open>handleCityChange\<close> with a city, the selected city is that city, the
  historical data, the transition matrix, the simulation results and the error are null,
  and the loading flag is as it was.
\<close>

theorem handleCityChange_resets:
  "selectedCity (handleCityChange c a) = c \<and>
   historicalData (handleCityChange c a) = None \<and>
   transitionMatrix (handleCityChange c a) = None \<and>
   simulationResults (handleCityChange c a) = None \<and>
   error (handleCityChange c a) = None \<and>
   isLoading (handleCityChange c a) = isLoading a"
  by (simp add: handleCityChange_def)

theorem handleCityChange_resets_witness:
  "transitionMatrix fixture_app \<noteq> None \<and> simulationResults fixture_app \<noteq> None \<and>
   handleCityChange ''Delhi'' fixture_app =
     \<lparr> selectedCity = ''Delhi'', historicalData = None, transitionMatrix = None,
       simulationResults = None, isLoading = True, error = None \<rparr>"
  using handleCityChange_resets [of "''Delhi''" fixture_app]
  by (simp add: fixture_app_def handleCityChange_def)

end
